theory Spec2Isabelle
  imports Main
begin

section \<open>Strings as the extension uses them\<close>

text \<open>
  JavaScript strings are modelled as \<open>string\<close>. The extension uses three string
  operations of the language: \<open>startsWith\<close>, \<open>endsWith\<close> and \<open>split\<close> on a
  one-character separator.
\<close>

definition startsWith :: "string \<Rightarrow> string \<Rightarrow> bool" where
  "startsWith s p = (take (length p) s = p)"

definition endsWith :: "string \<Rightarrow> string \<Rightarrow> bool" where
  "endsWith s p = (length p \<le> length s \<and> drop (length s - length p) s = p)"

text \<open>
  \<open>s.split(d)\<close> for a one-character \<open>d\<close>: the pieces between the separators, empty
  pieces kept, so that the empty string splits into one empty piece.
\<close>

fun split_char :: "char \<Rightarrow> string \<Rightarrow> string list" where
  "split_char d [] = [[]]"
| "split_char d (c # cs) =
     (if c = d then [] # split_char d cs
      else (case split_char d cs of
              [] \<Rightarrow> [[c]]
            | x # xs \<Rightarrow> (c # x) # xs))"

text \<open>\<open>Array.prototype.find\<close>: the first element that satisfies the predicate.\<close>

fun array_find :: "('a \<Rightarrow> bool) \<Rightarrow> 'a list \<Rightarrow> 'a option" where
  "array_find P [] = None"
| "array_find P (x # xs) = (if P x then Some x else array_find P xs)"

section \<open>Target Resolver\<close>

text \<open>
  \<open>getPlatformTarget\<close> reads \<open>process.platform\<close> and \<open>process.arch\<close>; they are the
  two arguments here.
\<close>

definition getPlatformTarget :: "string \<Rightarrow> string \<Rightarrow> string option" where
  "getPlatformTarget platform arch =
     (if platform = ''linux'' \<and> arch = ''x64'' then Some ''x86_64-unknown-linux-gnu''
      else if platform = ''linux'' \<and> arch = ''arm64'' then Some ''aarch64-unknown-linux-gnu''
      else if platform = ''darwin'' \<and> arch = ''x64'' then Some ''x86_64-apple-darwin''
      else if platform = ''darwin'' \<and> arch = ''arm64'' then Some ''aarch64-apple-darwin''
      else if platform = ''win32'' \<and> arch = ''x64'' then Some ''x86_64-pc-windows-msvc''
      else None)"

text \<open>The five supported pairs, as the spec and the README's platform table list them.\<close>

definition supported_pairs :: "(string \<times> string) list" where
  "supported_pairs =
     [(''linux'', ''x64''), (''linux'', ''arm64''), (''darwin'', ''x64''),
      (''darwin'', ''arm64''), (''win32'', ''x64'')]"

section \<open>Release Fetcher: asset selection\<close>

record asset =
  name :: string
  browser_download_url :: string

record release =
  tag_name :: string
  assets :: "asset list"

text \<open>The prefix built by the template literal \<open>luat-lsp-${release.tag_name}-${target}\<close>.\<close>

definition assetName :: "release \<Rightarrow> string \<Rightarrow> string" where
  "assetName rel target = ''luat-lsp-'' @ tag_name rel @ ''-'' @ target"

definition asset_matches :: "string \<Rightarrow> asset \<Rightarrow> bool" where
  "asset_matches pre a =
     (startsWith (name a) pre \<and> (endsWith (name a) ''.tar.gz'' \<or> endsWith (name a) ''.zip''))"

definition find_asset :: "release \<Rightarrow> string \<Rightarrow> asset option" where
  "find_asset rel target = array_find (asset_matches (assetName rel target)) (assets rel)"

section \<open>The host: process, configuration, libraries and the outside world\<close>

text \<open>
  A thrown JavaScript error is represented by the text that \<open>${error}\<close> renders.
\<close>

datatype error = Thrown string

fun error_text :: "error \<Rightarrow> string" where
  "error_text (Thrown m) = m"

text \<open>
  The filesystem maps a path to what is there. \<open>fs.existsSync\<close> is true of files and
  of directories.
\<close>

datatype node = Dir | File (content: string) (mode: nat)

type_synonym fs = "string \<rightharpoonup> node"

definition existsSync :: "fs \<Rightarrow> string \<Rightarrow> bool" where
  "existsSync f p = (f p \<noteq> None)"

text \<open>
  What one \<open>https.get\<close> delivers: an \<open>error\<close> event, or a response with its status
  code, its \<open>Location\<close> header if it has one, and its body.
\<close>

datatype http_result =
    NetError error
  | Response (statusCode: nat) (location: "string option") (body: string)

text \<open>
  Everything the extension reads and does not own: the process (\<open>process.platform\<close>,
  \<open>process.arch\<close>, \<open>process.env\<close>, \<open>os.homedir()\<close>), the configuration value
  \<open>luat.server.path\<close>, the extension context's \<open>globalStorageUri.fsPath\<close>, Node's
  \<open>path.join\<close>, the release service and the network, the shell that
  \<open>child_process.exec\<close> runs a command in, and whether the server at a path starts.
  \<open>path_dirname\<close> is the directory a path lies in, as the operating system resolves
  the path; the source never calls it, the filesystem calls depend on it.
  \<open>created_mode\<close> is the mode a file gets that is created with the default \<open>0o666\<close>:
  those bits less the ones the umask of the process clears.
  \<open>api_latest\<close> is what \<open>getLatestRelease\<close> settles to: rejected (a network error, or
  a body that is not JSON), or the JSON value parsed.
  \<open>get_undefined\<close> is what becomes of \<open>https.get(undefined, ...)\<close>, which Node turns
  into a GET of its default target \<open>https://localhost/\<close> with no response callback: the
  error of the request if it fails, \<open>None\<close> if it is answered.
  \<open>exec_shell\<close> gives, for a command line and the filesystem it runs on, the error of a
  non-zero exit if any, and the filesystem it leaves.
\<close>

text \<open>
  The value \<open>JSON.parse\<close> gives for the body of the release service's answer: a falsy
  value; a truthy value that is no release descriptor, one on which
  \<open>release.assets.find(...)\<close> throws a \<open>TypeError\<close>, with the text of that error; or
  a release descriptor.
\<close>

datatype release_json = Falsy | Malformed string | Descriptor release

record host =
  process_platform :: string
  process_arch :: string
  env_PATH :: "string option"
  env_CARGO_HOME :: "string option"
  homedir :: string
  config_server_path :: "string option"
  globalStorage :: string
  path_join :: "string list \<Rightarrow> string"
  path_dirname :: "string \<Rightarrow> string"
  created_mode :: nat
  api_latest :: "error + release_json"
  http_get :: "string \<Rightarrow> http_result"
  get_undefined :: "error option"
  exec_shell :: "string \<Rightarrow> fs \<Rightarrow> error option \<times> fs"
  handshake :: "string \<Rightarrow> error option"

text \<open>\<open>BINARY_NAME\<close>, and \<open>path.delimiter\<close> of Node's \<open>path\<close> module.\<close>

definition BINARY_NAME :: "host \<Rightarrow> string" where
  "BINARY_NAME h = (if process_platform h = ''win32'' then ''luat-lsp.exe'' else ''luat-lsp'')"

definition path_delimiter :: "host \<Rightarrow> char" where
  "path_delimiter h = (if process_platform h = ''win32'' then CHR '';'' else CHR '':'')"

definition GITHUB_REPO :: string where
  "GITHUB_REPO = ''maravilla-labs/luat-tools''"

text \<open>
  Truthiness of an optional string: \<open>undefined\<close> and the empty string are falsy.
  \<open>truthy x\<close> is the string when \<open>x\<close> is truthy; \<open>js_or x d\<close> is \<open>x || d\<close>.
\<close>

definition truthy :: "string option \<Rightarrow> string option" where
  "truthy x = (case x of None \<Rightarrow> None | Some s \<Rightarrow> if s = [] then None else Some s)"

definition js_or :: "string option \<Rightarrow> string \<Rightarrow> string" where
  "js_or x d = (case truthy x of None \<Rightarrow> d | Some s \<Rightarrow> s)"

section \<open>Server Locator\<close>

text \<open>The \<open>for\<close> loop over the directories of \<open>PATH\<close>.\<close>

fun path_search :: "host \<Rightarrow> fs \<Rightarrow> string list \<Rightarrow> string option" where
  "path_search h f [] = None"
| "path_search h f (dir # dirs) =
     (let candidate = path_join h [dir, BINARY_NAME h]
      in if existsSync f candidate then Some candidate else path_search h f dirs)"

definition getServerPath :: "host \<Rightarrow> fs \<Rightarrow> string option" where
  "getServerPath h f =
     (let configPath = config_server_path h
      in if (case truthy configPath of None \<Rightarrow> False | Some p \<Rightarrow> existsSync f p)
         then configPath
         else
           let extensionServerPath = path_join h [globalStorage h, ''server'', BINARY_NAME h]
           in if existsSync f extensionServerPath then Some extensionServerPath
              else
                let pathDirs = split_char (path_delimiter h) (js_or (env_PATH h) [])
                in case path_search h f pathDirs of
                     Some candidate \<Rightarrow> Some candidate
                   | None \<Rightarrow>
                       let cargoHome = js_or (env_CARGO_HOME h) (path_join h [homedir h, ''.cargo'']);
                           cargoPath = path_join h [cargoHome, ''bin'', BINARY_NAME h]
                       in if existsSync f cargoPath then Some cargoPath else None)"

text \<open>
  The candidates in the precedence order of the spec: the configured override (an unset
  or empty setting is no override), the extension's own storage directory, one entry for
  each directory of the search path in its order, the cargo install directory.
\<close>

definition candidates :: "host \<Rightarrow> string list" where
  "candidates h =
     (case truthy (config_server_path h) of None \<Rightarrow> [] | Some p \<Rightarrow> [p])
     @ [path_join h [globalStorage h, ''server'', BINARY_NAME h]]
     @ map (\<lambda>dir. path_join h [dir, BINARY_NAME h])
           (split_char (path_delimiter h) (js_or (env_PATH h) []))
     @ [path_join h [js_or (env_CARGO_HOME h) (path_join h [homedir h, ''.cargo'']),
                     ''bin'', BINARY_NAME h]]"

section \<open>The state the extension changes\<close>

text \<open>
  Modelled from the spec: the session that \<open>LanguageClient\<close> of the library
  \<open>vscode-languageclient\<close> holds, which is not part of the source. The states are those
  of the Client Supervisor's state machine.
\<close>

datatype session_state = Uninitialized | Starting | Running | Restarting | Stopped

text \<open>
  The \<open>serverOptions\<close> a client is built from: the command of the \<open>run\<close> profile, the
  command of the \<open>debug\<close> profile and the \<open>RUST_LOG\<close> value the debug profile adds to
  the environment.
\<close>

record session =
  run_command :: string
  debug_command :: string
  debug_RUST_LOG :: string
  state :: session_state

datatype notification =
    ShowWarning string "string list"
  | ShowError string
  | ShowInformation string
  | Progress string

datatype disposable = StatusBarItem string string | Command string

text \<open>
  \<open>files\<close> is the filesystem, \<open>client\<close> the module variable of that name,
  \<open>notifications\<close> what the extension has shown through \<open>window\<close> in order,
  \<open>requests\<close> the URLs it has issued a GET for, \<open>executed\<close> the command lines it has
  run, \<open>subscriptions\<close> the \<open>context.subscriptions\<close> array.
\<close>

record world =
  files :: fs
  client :: "session option"
  notifications :: "notification list"
  requests :: "string list"
  executed :: "string list"
  subscriptions :: "disposable list"

definition notify :: "notification \<Rightarrow> world \<Rightarrow> world" where
  "notify n w = w\<lparr>notifications := notifications w @ [n]\<rparr>"

subsection \<open>Node's filesystem calls\<close>

text \<open>The message of a filesystem error ends with the path in single quotes.\<close>

definition quoted :: "string \<Rightarrow> string" where
  "quoted p = [CHR 0x27] @ p @ [CHR 0x27]"

text \<open>
  \<open>fs.mkdirSync(dir, {recursive: true})\<close> creates the directory and the parents that
  are missing, leaves an existing directory alone and throws where a file is in the way.
  \<open>mkdir_parents\<close> climbs from \<open>dir\<close> to the first directory that exists or to the
  root, which is its own parent; a path has no more ancestors than characters, which
  bounds the climb. \<open>None\<close>: an ancestor is a file.
\<close>

fun mkdir_parents :: "(string \<Rightarrow> string) \<Rightarrow> nat \<Rightarrow> string \<Rightarrow> fs \<Rightarrow> fs option" where
  "mkdir_parents dn 0 dir f =
     (case f dir of
        None \<Rightarrow> Some (f(dir \<mapsto> Dir))
      | Some Dir \<Rightarrow> Some f
      | Some (File c m) \<Rightarrow> None)"
| "mkdir_parents dn (Suc k) dir f =
     (case f dir of
        None \<Rightarrow>
          (if dn dir = dir then Some (f(dir \<mapsto> Dir))
           else (case mkdir_parents dn k (dn dir) f of
                   None \<Rightarrow> None
                 | Some f1 \<Rightarrow> Some (f1(dir \<mapsto> Dir))))
      | Some Dir \<Rightarrow> Some f
      | Some (File c m) \<Rightarrow> None)"

definition mkdirSync :: "host \<Rightarrow> string \<Rightarrow> fs \<Rightarrow> error + fs" where
  "mkdirSync h dir f =
     (case f dir of
        Some (File c m) \<Rightarrow>
          Inl (Thrown (''Error: EEXIST: file already exists, mkdir '' @ quoted dir))
      | _ \<Rightarrow>
          (case mkdir_parents (path_dirname h) (length dir) dir f of
             None \<Rightarrow> Inl (Thrown (''Error: ENOTDIR: not a directory, mkdir '' @ quoted dir))
           | Some f1 \<Rightarrow> Inr f1))"

definition chmodSync :: "string \<Rightarrow> nat \<Rightarrow> fs \<Rightarrow> error + fs" where
  "chmodSync p m f =
     (case f p of
        None \<Rightarrow>
          Inl (Thrown (''Error: ENOENT: no such file or directory, chmod '' @ quoted p))
      | Some Dir \<Rightarrow> Inr f
      | Some (File c m0) \<Rightarrow> Inr (f(p \<mapsto> File c m)))"

text \<open>\<open>unlink\<close> of a directory fails with \<open>EISDIR\<close> on Linux and \<open>EPERM\<close> elsewhere.\<close>

definition unlinkSync :: "host \<Rightarrow> string \<Rightarrow> fs \<Rightarrow> error + fs" where
  "unlinkSync h p f =
     (case f p of
        None \<Rightarrow>
          Inl (Thrown (''Error: ENOENT: no such file or directory, unlink '' @ quoted p))
      | Some Dir \<Rightarrow>
          Inl (Thrown
                 ((if process_platform h = ''linux''
                   then ''Error: EISDIR: illegal operation on a directory, unlink ''
                   else ''Error: EPERM: operation not permitted, unlink '') @ quoted p))
      | Some (File c m) \<Rightarrow> Inr (f(p := None)))"

text \<open>
  Opening a path for writing, as \<open>fs.createWriteStream\<close> does: it succeeds when the
  directory of the path exists and the path is no directory.
\<close>

definition can_create :: "host \<Rightarrow> fs \<Rightarrow> string \<Rightarrow> bool" where
  "can_create h f p = (f (path_dirname h p) = Some Dir \<and> f p \<noteq> Some Dir)"

section \<open>Release Fetcher: the request\<close>

text \<open>
  \<open>getLatestRelease\<close> issues one GET to the release service and settles to what the
  host delivers.
\<close>

definition getLatestRelease :: "host \<Rightarrow> world \<Rightarrow> (error + release_json) \<times> world" where
  "getLatestRelease h w =
     (api_latest h,
      w\<lparr>requests := requests w @
           [''https://api.github.com/repos/'' @ GITHUB_REPO @ ''/releases/latest'']\<rparr>)"

section \<open>Artifact Installer\<close>

text \<open>
  The inner function \<open>request\<close> of \<open>downloadFile\<close>: one GET, and on status 302 or 301
  the same again on the \<open>Location\<close> header. It has no bound on the number of
  redirects, so it is a partial function: \<open>None\<close> is a promise that does not settle
  (a redirect cycle). On a redirect without a \<open>Location\<close> header the source hands
  \<open>undefined\<close> to \<open>https.get\<close>: the error of that request reaches the \<open>error\<close>
  handler, an answer to it reaches nobody. The second argument collects the URLs
  requested.
\<close>

partial_function (option) request :: "host \<Rightarrow> string list \<Rightarrow> string \<Rightarrow> (http_result \<times> string list) option"
where
  "request h reqs url =
     (case http_get h url of
        NetError err \<Rightarrow> Some (NetError err, reqs @ [url])
      | Response st loc b \<Rightarrow>
          if st = 302 \<or> st = 301
          then (case loc of
                  None \<Rightarrow>
                    (case get_undefined h of
                       None \<Rightarrow> None
                     | Some err \<Rightarrow> Some (NetError err, reqs @ [url, ''https://localhost/'']))
                | Some l \<Rightarrow> request h (reqs @ [url]) l)
          else Some (Response st loc b, reqs @ [url]))"

declare request.simps [code]

text \<open>
  \<open>downloadFile\<close>. \<open>fs.createWriteStream(dest)\<close> opens the file: a new file gets the
  mode \<open>created_mode\<close>, an existing one is emptied and keeps its mode. The body of the
  final response is piped into it and the promise resolves on \<open>finish\<close>; on an
  \<open>error\<close> event of a request the file is unlinked and the promise rejects. The
  stream has no \<open>error\<close> listener: where the file cannot be opened nothing is written
  and \<open>finish\<close> never comes, so the promise settles only if a request fails.
\<close>

definition downloadFile :: "host \<Rightarrow> string \<Rightarrow> string \<Rightarrow> world \<Rightarrow> ((error + unit) \<times> world) option" where
  "downloadFile h url dest w =
     (if can_create h (files w) dest
      then
        (let m = (case files w dest of Some (File c m0) \<Rightarrow> m0 | _ \<Rightarrow> created_mode h);
             w1 = w\<lparr>files := (files w)(dest \<mapsto> File [] m)\<rparr>
         in (case request h (requests w1) url of
               None \<Rightarrow> None
             | Some (NetError err, reqs) \<Rightarrow>
                 Some (Inl err, w1\<lparr>files := (files w1)(dest := None), requests := reqs\<rparr>)
             | Some (Response st loc b, reqs) \<Rightarrow>
                 Some (Inr (), w1\<lparr>files := (files w1)(dest \<mapsto> File b m), requests := reqs\<rparr>)))
      else
        (case request h (requests w) url of
           Some (NetError err, reqs) \<Rightarrow> Some (Inl err, w\<lparr>requests := reqs\<rparr>)
         | _ \<Rightarrow> None))"

text \<open>
  The redirects that lead from \<open>url\<close> to \<open>final\<close>: \<open>visited\<close> are the URLs that
  answered 301 or 302, in order, each naming the next in its \<open>Location\<close> header.
\<close>

fun redirects_via :: "host \<Rightarrow> string \<Rightarrow> string list \<Rightarrow> string \<Rightarrow> bool" where
  "redirects_via h url [] final = (url = final)"
| "redirects_via h url (v # vs) final =
     (v = url \<and>
      (case http_get h url of
         NetError err \<Rightarrow> False
       | Response st loc b \<Rightarrow>
           (st = 302 \<or> st = 301) \<and>
           (case loc of None \<Rightarrow> False | Some l \<Rightarrow> redirects_via h l vs final)))"

text \<open>\<open>execAsync\<close>: run a command line; a non-zero exit rejects.\<close>

definition execAsync :: "host \<Rightarrow> string \<Rightarrow> world \<Rightarrow> (error + unit) \<times> world" where
  "execAsync h cmd w =
     (case exec_shell h cmd (files w) of
        (failure, f) \<Rightarrow>
          ((case failure of None \<Rightarrow> Inr () | Some err \<Rightarrow> Inl err),
           w\<lparr>files := f, executed := executed w @ [cmd]\<rparr>))"

definition extractArchive :: "host \<Rightarrow> string \<Rightarrow> string \<Rightarrow> world \<Rightarrow> (error + unit) \<times> world" where
  "extractArchive h archivePath destDir w =
     (if endsWith archivePath ''.tar.gz''
      then execAsync h (''tar -xzf \"'' @ archivePath @ ''\" -C \"'' @ destDir @ ''\"'') w
      else if endsWith archivePath ''.zip''
      then (if process_platform h = ''win32''
            then execAsync h
                   (''powershell -Command \"Expand-Archive -Path '' @ [CHR 39] @ archivePath
                    @ [CHR 39] @ '' -DestinationPath '' @ [CHR 39] @ destDir @ [CHR 39]
                    @ '' -Force\"'') w
            else execAsync h (''unzip -o \"'' @ archivePath @ ''\" -d \"'' @ destDir @ ''\"'') w)
      else (Inr (), w))"

text \<open>
  The statements of \<open>downloadServer\<close> from the comment \<open>Download asset\<close> to
  \<open>return true\<close>. An exception leaves at once, with the state reached so far; 493 is
  \<open>0o755\<close>.
\<close>

definition install_asset :: "host \<Rightarrow> asset \<Rightarrow> world \<Rightarrow> ((error + bool) \<times> world) option" where
  "install_asset h a w =
     (let w1 = notify (Progress (''Downloading '' @ name a @ ''...'')) w;
          serverDir = path_join h [globalStorage h, ''server'']
      in (case mkdirSync h serverDir (files w1) of
            Inl err \<Rightarrow> Some (Inl err, w1)
          | Inr f2 \<Rightarrow>
             (let w2 = w1\<lparr>files := f2\<rparr>;
                  archivePath = path_join h [serverDir, name a]
              in (case downloadFile h (browser_download_url a) archivePath w2 of
                    None \<Rightarrow> None
                  | Some (Inl err, w3) \<Rightarrow> Some (Inl err, w3)
                  | Some (Inr u, w3) \<Rightarrow>
                     (let w4 = notify (Progress ''Extracting...'') w3
                      in (case extractArchive h archivePath serverDir w4 of
                            (Inl err, w5) \<Rightarrow> Some (Inl err, w5)
                          | (Inr u, w5) \<Rightarrow>
                             (case (if process_platform h \<noteq> ''win32''
                                    then chmodSync (path_join h [serverDir, BINARY_NAME h]) 493
                                           (files w5)
                                    else Inr (files w5)) of
                                Inl err \<Rightarrow> Some (Inl err, w5)
                              | Inr f6 \<Rightarrow>
                                 (case unlinkSync h archivePath f6 of
                                    Inl err \<Rightarrow> Some (Inl err, w5\<lparr>files := f6\<rparr>)
                                  | Inr f7 \<Rightarrow> Some (Inr True, w5\<lparr>files := f7\<rparr>)))))))))"

text \<open>The body of the \<open>try\<close> block of \<open>downloadServer\<close>.\<close>

definition download_try :: "host \<Rightarrow> string \<Rightarrow> world \<Rightarrow> ((error + bool) \<times> world) option" where
  "download_try h target w =
     (case getLatestRelease h (notify (Progress ''Fetching latest release...'') w) of
        (Inl err, w1) \<Rightarrow> Some (Inl err, w1)
      | (Inr Falsy, w1) \<Rightarrow>
          Some (Inr False, notify (ShowError ''Failed to fetch latest release'') w1)
      | (Inr (Malformed msg), w1) \<Rightarrow> Some (Inl (Thrown msg), w1)
      | (Inr (Descriptor rel), w1) \<Rightarrow>
          (case find_asset rel target of
             None \<Rightarrow>
               Some (Inr False,
                     notify (ShowError (''No binary found for '' @ target @ '' in release ''
                                        @ tag_name rel)) w1)
           | Some a \<Rightarrow> install_asset h a w1))"

text \<open>The \<open>try\<close> with its \<open>catch\<close>: an exception becomes a message and \<open>false\<close>.\<close>

definition download_task :: "host \<Rightarrow> string \<Rightarrow> world \<Rightarrow> (bool \<times> world) option" where
  "download_task h target w =
     (case download_try h target w of
        None \<Rightarrow> None
      | Some (Inl err, w1) \<Rightarrow>
          Some (False, notify (ShowError (''Download failed: '' @ error_text err)) w1)
      | Some (Inr b, w1) \<Rightarrow> Some (b, w1))"

definition downloadServer :: "host \<Rightarrow> world \<Rightarrow> (bool \<times> world) option" where
  "downloadServer h w =
     (case getPlatformTarget (process_platform h) (process_arch h) of
        None \<Rightarrow>
          Some (False,
                notify (ShowError (''Unsupported platform: '' @ process_platform h @ ''-''
                                   @ process_arch h)) w)
      | Some target \<Rightarrow>
          download_task h target (notify (Progress ''Downloading Luat language server...'') w))"

section \<open>Client Supervisor\<close>

text \<open>
  Modelled from the spec: \<open>start\<close>, \<open>stop\<close> and \<open>restart\<close> of \<open>LanguageClient\<close>, which
  belong to the library \<open>vscode-languageclient\<close> and are not part of the source. The spec
  gives \<open>Uninitialized --start--> Starting --(handshake ok)--> Running\<close>,
  \<open>Running --restart--> Restarting --> Running\<close> and
  \<open>Running|Starting --stop--> Stopped\<close>, with \<open>stop\<close> on an already stopped session a
  no-op and not an error.
\<close>

definition lc_start :: "host \<Rightarrow> session \<Rightarrow> (error + unit) \<times> session" where
  "lc_start h s =
     (case handshake h (run_command s) of
        None \<Rightarrow> (Inr (), s\<lparr>state := Running\<rparr>)
      | Some err \<Rightarrow> (Inl err, s\<lparr>state := Starting\<rparr>))"

definition lc_stop :: "session \<Rightarrow> (error + unit) \<times> session" where
  "lc_stop s =
     (Inr (), if state s = Running \<or> state s = Starting then s\<lparr>state := Stopped\<rparr> else s)"


definition deactivate :: "world \<Rightarrow> (error + unit) \<times> world" where
  "deactivate w =
     (case client w of
        None \<Rightarrow> (Inr (), w)
      | Some s \<Rightarrow> (case lc_stop s of (r, s1) \<Rightarrow> (r, w\<lparr>client := Some s1\<rparr>)))"

section \<open>Acquisition Orchestrator\<close>

text \<open>
  The part of \<open>activate\<close> after the server path is known: build the client, assign it
  to the module variable, await its start, then push the status bar item and the two
  commands.
\<close>

definition launch :: "host \<Rightarrow> string \<Rightarrow> world \<Rightarrow> (error + unit) \<times> world" where
  "launch h serverPath w =
     (let s = \<lparr>run_command = serverPath, debug_command = serverPath,
               debug_RUST_LOG = ''luat_lsp=debug'', state = Uninitialized\<rparr>
      in case lc_start h s of
           (Inl err, s1) \<Rightarrow> (Inl err, w\<lparr>client := Some s1\<rparr>)
         | (Inr u, s1) \<Rightarrow>
             (Inr (),
              w\<lparr>client := Some s1,
                subscriptions := subscriptions w @
                  [StatusBarItem ''$(file-code) Luat'' ''Luat Language Server'',
                   Command ''luat.restartServer'', Command ''luat.downloadServer'']\<rparr>))"

text \<open>The warning with its two items that \<open>activate\<close> shows when no server is found.\<close>

definition not_found_prompt :: notification where
  "not_found_prompt =
     ShowWarning ''Luat language server not found. Would you like to download it?''
       [''Download'', ''Cancel'']"

text \<open>
  \<open>activate\<close>; \<open>if (!serverPath)\<close> is the truthiness test. The file watcher that
  the client options create is not modelled. Each time it finds no server it asks the
  user; the answers are the list \<open>choices\<close>, one for each prompt, \<open>None\<close> for a
  dismissed prompt (\<open>undefined\<close>). A prompt that is never answered never settles:
  \<open>None\<close> as the result.
\<close>

fun activate :: "host \<Rightarrow> string option list \<Rightarrow> world \<Rightarrow> ((error + unit) \<times> world) option" where
  "activate h choices w =
     (case truthy (getServerPath h (files w)) of
        Some serverPath \<Rightarrow> Some (launch h serverPath w)
      | None \<Rightarrow>
         (let w1 = notify not_found_prompt w
          in (case choices of
                [] \<Rightarrow> None
              | choice # rest \<Rightarrow>
                 (if choice = Some ''Download''
                  then (case downloadServer h w1 of
                          None \<Rightarrow> None
                        | Some (downloaded, w2) \<Rightarrow>
                           (if \<not> downloaded
                            then Some (Inr (),
                                   notify (ShowError
                                     ''Failed to download luat-lsp. Please install manually.'') w2)
                            else activate h rest w2))
                  else Some (Inr (), w1)))))"

declare activate.simps [simp del]








section \<open>Example inputs\<close>

text \<open>
  A stand-in for \<open>path.join\<close> of a POSIX host, right on segments that are not empty
  and hold no \<open>.\<close>, \<open>..\<close> or doubled separator: the segments with a slash between
  them. The theorems below hold for every \<open>path_join\<close>; this one is for the examples.
\<close>

fun join_slash :: "string list \<Rightarrow> string" where
  "join_slash [] = ''.''"
| "join_slash [x] = x"
| "join_slash (x # y # ys) = x @ ''/'' @ join_slash (y # ys)"

text \<open>
  The directory of a POSIX path that is absolute and normalised: what stands before its
  last slash, and the root for a path directly under the root and for the root.
\<close>

definition dirname_slash :: "string \<Rightarrow> string" where
  "dirname_slash p =
     (let d = rev (drop 1 (dropWhile (\<lambda>c. c \<noteq> CHR ''/'') (rev p)))
      in if d = [] then ''/'' else d)"

text \<open>A release that lists the extension package and the Linux x64 archive.\<close>

definition linux_release :: release where
  "linux_release =
     \<lparr>tag_name = ''v0.2.0'',
      assets =
        [\<lparr>name = ''luat-0.2.0.vsix'', browser_download_url = ''https://github.com/dl/luat.vsix''\<rparr>,
         \<lparr>name = ''luat-lsp-v0.2.0-x86_64-unknown-linux-gnu.tar.gz'',
          browser_download_url = ''https://github.com/dl/linux.tar.gz''\<rparr>]\<rparr>"

text \<open>A release that lists a zip and a tar.gz archive of the same target, the zip first.\<close>

definition two_archives :: release where
  "two_archives =
     \<lparr>tag_name = ''v1'',
      assets =
        [\<lparr>name = ''luat-lsp-v1-x86_64-unknown-linux-gnu.zip'',
          browser_download_url = ''https://github.com/dl/v1.zip''\<rparr>,
         \<lparr>name = ''luat-lsp-v1-x86_64-unknown-linux-gnu.tar.gz'',
          browser_download_url = ''https://github.com/dl/v1.tar.gz''\<rparr>]\<rparr>"

text \<open>
  A network on which the archive's URL redirects once, the URL of an archive that was
  removed redirects once too, one host cannot be reached, and every other URL answers
  404.
\<close>

definition release_http :: "string \<Rightarrow> http_result" where
  "release_http url =
     (if url = ''https://github.com/dl/linux.tar.gz''
      then Response 302 (Some ''https://cdn.example/linux.tar.gz'') []
      else if url = ''https://cdn.example/linux.tar.gz''
      then Response 200 None ''archive''
      else if url = ''https://github.com/dl/gone.tar.gz''
      then Response 302 (Some ''https://cdn.example/gone.tar.gz'') []
      else if url = ''https://unreachable.example/x.tar.gz''
      then NetError (Thrown ''Error: getaddrinfo ENOTFOUND unreachable.example'')
      else Response 404 None ''Not Found'')"

text \<open>
  Two archives: one holds the binary at its top level, the other holds it inside a
  directory named for the release. Extracting either succeeds.
\<close>

definition flat_shell :: "string \<Rightarrow> fs \<Rightarrow> error option \<times> fs" where
  "flat_shell cmd f = (None, f(''/gs/server/luat-lsp'' \<mapsto> File ''binary'' 420))"

definition nested_shell :: "string \<Rightarrow> fs \<Rightarrow> error option \<times> fs" where
  "nested_shell cmd f =
     (None, f(''/gs/server/luat-lsp-v0.2.0/luat-lsp'' \<mapsto> File ''binary'' 420))"

definition linux_host :: host where
  "linux_host =
     \<lparr>process_platform = ''linux'', process_arch = ''x64'',
      env_PATH = Some ''/usr/bin:/bin'', env_CARGO_HOME = None, homedir = ''/home/u'',
      config_server_path = None, globalStorage = ''/gs'', path_join = join_slash,
      path_dirname = dirname_slash, created_mode = 420,
      api_latest = Inr (Descriptor linux_release), http_get = release_http,
      get_undefined = Some (Thrown ''Error: connect ECONNREFUSED 127.0.0.1:443''),
      exec_shell = flat_shell, handshake = (\<lambda>p. None)\<rparr>"

definition nested_host :: host where
  "nested_host = linux_host\<lparr>exec_shell := nested_shell\<rparr>"

definition empty_world :: world where
  "empty_world =
     \<lparr>files = Map.empty, client = None, notifications = [], requests = [],
      executed = [], subscriptions = []\<rparr>"

text \<open>A world in which the install directory exists and is empty.\<close>

definition storage_world :: world where
  "storage_world =
     empty_world\<lparr>files := [''/'' \<mapsto> Dir, ''/gs'' \<mapsto> Dir, ''/gs/server'' \<mapsto> Dir]\<rparr>"


text \<open>A world with the server in the extension's storage directory and in cargo's.\<close>

definition two_installs :: world where
  "two_installs =
     empty_world\<lparr>files := [''/gs/server/luat-lsp'' \<mapsto> File ''binary'' 493,
                             ''/home/u/.cargo/bin/luat-lsp'' \<mapsto> File ''binary'' 493]\<rparr>"


definition running_session :: session where
  "running_session =
     \<lparr>run_command = ''/gs/server/luat-lsp'', debug_command = ''/gs/server/luat-lsp'',
      debug_RUST_LOG = ''luat_lsp=debug'', state = Running\<rparr>"

section \<open>Auxiliary facts\<close>

lemma array_find_is_find: "array_find P xs = List.find P xs"
  by (induction xs) auto

lemma find_over_append:
  "List.find P (xs @ ys) = (case List.find P xs of None \<Rightarrow> List.find P ys | Some x \<Rightarrow> Some x)"
  by (induction xs) auto

lemma startsWith_iff: "startsWith s p \<longleftrightarrow> (\<exists>r. s = p @ r)"
  unfolding startsWith_def
  by (metis append_eq_conv_conj append_take_drop_id)

lemma endsWith_iff: "endsWith s p \<longleftrightarrow> (\<exists>r. s = r @ p)"
  unfolding endsWith_def
  by (metis append_eq_conv_conj append_take_drop_id diff_add_inverse2 le_add2 length_append)

lemma path_search_is_find:
  "path_search h f dirs =
     List.find (existsSync f) (map (\<lambda>dir. path_join h [dir, BINARY_NAME h]) dirs)"
  by (induction dirs) (auto simp: Let_def)

lemma linux_candidates:
  "candidates linux_host =
     [''/gs/server/luat-lsp'', ''/usr/bin/luat-lsp'', ''/bin/luat-lsp'',
      ''/home/u/.cargo/bin/luat-lsp'']"
  by (simp add: candidates_def linux_host_def BINARY_NAME_def path_delimiter_def js_or_def
      truthy_def)

text \<open>Downloading and installing never touches the module variable \<open>client\<close>.\<close>

lemma notify_keeps: "client (notify n w) = client w" "files (notify n w) = files w"
  by (simp_all add: notify_def)

lemma downloadFile_client: "downloadFile h u d w = Some (r, w') \<Longrightarrow> client w' = client w"
  unfolding downloadFile_def Let_def
  by (auto split: if_splits option.splits prod.splits http_result.splits)

lemma execAsync_client: "execAsync h c w = (r, w') \<Longrightarrow> client w' = client w"
  by (auto simp: execAsync_def split: prod.splits)

lemma extractArchive_client: "extractArchive h a d w = (r, w') \<Longrightarrow> client w' = client w"
  by (auto simp: extractArchive_def dest: execAsync_client split: if_splits)

lemma install_asset_client: "install_asset h a w = Some (r, w') \<Longrightarrow> client w' = client w"
  unfolding install_asset_def Let_def
  by (auto simp: notify_keeps dest!: downloadFile_client extractArchive_client
      split: sum.splits option.splits prod.splits if_splits)

lemma download_try_client: "download_try h t w = Some (r, w') \<Longrightarrow> client w' = client w"
  unfolding download_try_def getLatestRelease_def
  by (auto simp: notify_keeps dest!: install_asset_client
      split: sum.splits option.splits prod.splits release_json.splits)

lemma downloadServer_client: "downloadServer h w = Some (r, w') \<Longrightarrow> client w' = client w"
  unfolding downloadServer_def download_task_def
  by (auto simp: notify_keeps dest!: download_try_client
      split: sum.splits option.splits prod.splits)

text \<open>The client that \<open>launch\<close> builds runs the path it was given.\<close>

lemma launch_session:
  "launch h p w = (r, w') \<Longrightarrow>
     files w' = files w \<and>
     client w' = Some \<lparr>run_command = p, debug_command = p, debug_RUST_LOG = ''luat_lsp=debug'',
                        state = (if r = Inr () then Running else Starting)\<rparr>"
  by (auto simp: launch_def lc_start_def Let_def split: option.splits)

lemma truthy_Some: "truthy x = Some p \<Longrightarrow> x = Some p \<and> p \<noteq> []"
  by (auto simp: truthy_def split: option.splits if_splits)

lemma activate_session:
  "activate h choices w = Some (r, w') \<Longrightarrow>
     client w' = client w \<or>
     (\<exists>p. p \<noteq> [] \<and> getServerPath h (files w') = Some p \<and>
        client w' = Some \<lparr>run_command = p, debug_command = p,
                           debug_RUST_LOG = ''luat_lsp=debug'',
                           state = (if r = Inr () then Running else Starting)\<rparr>)"
proof (induction choices arbitrary: w)
  case Nil
  then show ?case
    by (subst (asm) activate.simps)
       (auto dest!: launch_session truthy_Some split: option.splits)
next
  case (Cons choice rest)
  show ?case
  proof (cases "truthy (getServerPath h (files w))")
    case (Some p)
    with Cons.prems show ?thesis
      by (subst (asm) activate.simps) (auto dest!: launch_session truthy_Some)
  next
    case None
    show ?thesis
    proof (cases "choice = Some ''Download''")
      case False
      with None Cons.prems show ?thesis
        by (subst (asm) activate.simps) (auto simp: notify_keeps)
    next
      case True
      show ?thesis
      proof (cases "downloadServer h (notify not_found_prompt w)")
        case dn: None
        with None True Cons.prems show ?thesis
          by (subst (asm) activate.simps) simp
      next
        case (Some dw)
        obtain downloaded w2 where dw: "dw = (downloaded, w2)"
          by (cases dw)
        have c2: "client w2 = client w"
          using downloadServer_client Some dw notify_keeps(1) by metis
        show ?thesis
        proof (cases downloaded)
          case False
          with None True Some dw Cons.prems c2 show ?thesis
            by (subst (asm) activate.simps) (auto simp: notify_keeps)
        next
          case dl: True
          with None True Some dw Cons.prems have "activate h rest w2 = Some (r, w')"
            by (subst (asm) activate.simps) simp
          from Cons.IH [OF this] c2 show ?thesis
            by simp
        qed
      qed
    qed
  qed
qed














text \<open>What \<open>request\<close> settles to.\<close>

lemma request_follows_redirects:
  "redirects_via h url visited final \<Longrightarrow> http_get h final = Response st loc b \<Longrightarrow>
   st \<noteq> 301 \<Longrightarrow> st \<noteq> 302 \<Longrightarrow>
   request h reqs url = Some (Response st loc b, reqs @ visited @ [final])"
proof (induction visited arbitrary: url reqs)
  case Nil
  then show ?case
    by (subst request.simps) simp
next
  case (Cons v vs)
  then show ?case
    by (subst request.simps) (auto split: http_result.splits option.splits)
qed

lemma request_error_origin:
  assumes "request h reqs url = Some y"
  shows "\<forall>e rs. y = (NetError e, rs) \<longrightarrow>
           (\<exists>u. http_get h u = NetError e) \<or> get_undefined h = Some e"
  by (rule request.raw_induct
        [where P = "\<lambda>h reqs url y. \<forall>e rs. y = (NetError e, rs) \<longrightarrow>
                      (\<exists>u. http_get h u = NetError e) \<or> get_undefined h = Some e",
         OF _ assms])
     (auto split: http_result.splits option.splits if_splits)

lemma linux_not_found: "getServerPath linux_host (files empty_world) = None"
  by (simp add: getServerPath_def linux_host_def empty_world_def existsSync_def
      BINARY_NAME_def path_delimiter_def js_or_def truthy_def)

section \<open>Properties of the Server Locator\<close>

text \<open>
  C1: for every filesystem, \<open>getServerPath\<close> returns the first existing candidate in
  the fixed order (configured override, the extension's storage directory, the
  directories of \<open>PATH\<close> in their order, cargo's \<open>bin\<close> directory), whichever later
  candidates exist too, and returns \<open>undefined\<close> only when no candidate exists.
\<close>

theorem getServerPath_first_existing_candidate:
  "getServerPath h f = List.find (existsSync f) (candidates h) \<and>
   (getServerPath h f = Some p \<longrightarrow>
      (\<exists>i<length (candidates h). candidates h ! i = p \<and> existsSync f p \<and>
         (\<forall>j<i. \<not> existsSync f (candidates h ! j)))) \<and>
   (getServerPath h f = None \<longleftrightarrow> (\<forall>c\<in>set (candidates h). \<not> existsSync f c))"
proof -
  have eq: "getServerPath h f = List.find (existsSync f) (candidates h)"
    unfolding getServerPath_def candidates_def Let_def path_search_is_find
    by (auto simp: find_over_append truthy_def split: option.splits if_splits)
  show ?thesis
    unfolding eq by (auto simp: find_Some_iff find_None_iff)
qed

text \<open>
  The test of the spec: with files at the second and at the fourth candidate, the
  second is returned; with no file at all, nothing is.
\<close>

theorem getServerPath_first_existing_candidate_witness:
  "getServerPath linux_host (files two_installs) = Some ''/gs/server/luat-lsp'' \<and>
   existsSync (files two_installs) ''/home/u/.cargo/bin/luat-lsp'' \<and>
   candidates linux_host ! 0 = ''/gs/server/luat-lsp'' \<and>
   candidates linux_host ! 3 = ''/home/u/.cargo/bin/luat-lsp'' \<and>
   getServerPath linux_host Map.empty = None"
  using getServerPath_first_existing_candidate
          [of linux_host "files two_installs" "''/gs/server/luat-lsp''"]
        getServerPath_first_existing_candidate [of linux_host "Map.empty"]
  by (simp add: linux_candidates two_installs_def empty_world_def existsSync_def)

section \<open>Properties of the Target Resolver\<close>

text \<open>
  C2: the Target Resolver returns the documented triple for exactly the five pairs
  (linux, x64), (linux, arm64), (darwin, x64), (darwin, arm64), (win32, x64), and
  \<open>undefined\<close> for every other pair of platform and architecture.
\<close>

theorem getPlatformTarget_table:
  "getPlatformTarget ''linux'' ''x64'' = Some ''x86_64-unknown-linux-gnu'' \<and>
   getPlatformTarget ''linux'' ''arm64'' = Some ''aarch64-unknown-linux-gnu'' \<and>
   getPlatformTarget ''darwin'' ''x64'' = Some ''x86_64-apple-darwin'' \<and>
   getPlatformTarget ''darwin'' ''arm64'' = Some ''aarch64-apple-darwin'' \<and>
   getPlatformTarget ''win32'' ''x64'' = Some ''x86_64-pc-windows-msvc'' \<and>
   ((platform, arch) \<notin> set supported_pairs \<longrightarrow> getPlatformTarget platform arch = None)"
  by (simp add: getPlatformTarget_def supported_pairs_def)

theorem getPlatformTarget_table_witness:
  "(''win32'', ''arm64'') \<notin> set supported_pairs \<and> getPlatformTarget ''win32'' ''arm64'' = None"
  using getPlatformTarget_table [of "''win32''" "''arm64''"]
  by (simp add: supported_pairs_def)

section \<open>Properties of the Release Fetcher\<close>

text \<open>
  C3: the asset selected is the first one in the release's listing order whose name
  starts with \<open>luat-lsp-<tag>-<triple>\<close> and ends with \<open>.tar.gz\<close> or \<open>.zip\<close>; no
  asset is selected exactly when none matches. Nothing is sorted and no extension is
  preferred.
\<close>

theorem find_asset_first_in_listing_order:
  "(find_asset rel target = Some a \<longleftrightarrow>
      (\<exists>i<length (assets rel). assets rel ! i = a \<and>
         asset_matches (assetName rel target) a \<and>
         (\<forall>j<i. \<not> asset_matches (assetName rel target) (assets rel ! j)))) \<and>
   (find_asset rel target = None \<longleftrightarrow>
      (\<forall>b\<in>set (assets rel). \<not> asset_matches (assetName rel target) b)) \<and>
   (asset_matches (assetName rel target) a \<longleftrightarrow>
      (\<exists>r. name a = ''luat-lsp-'' @ tag_name rel @ ''-'' @ target @ r) \<and>
      ((\<exists>r. name a = r @ ''.tar.gz'') \<or> (\<exists>r. name a = r @ ''.zip'')))"
  unfolding find_asset_def array_find_is_find asset_matches_def startsWith_iff endsWith_iff
    assetName_def
  by (auto simp: find_Some_iff find_None_iff)

text \<open>A zip listed before a tar.gz of the same target: the zip is selected.\<close>

theorem find_asset_first_in_listing_order_witness:
  "asset_matches (assetName two_archives ''x86_64-unknown-linux-gnu'') (assets two_archives ! 0) \<and>
   asset_matches (assetName two_archives ''x86_64-unknown-linux-gnu'') (assets two_archives ! 1) \<and>
   find_asset two_archives ''x86_64-unknown-linux-gnu'' =
     Some \<lparr>name = ''luat-lsp-v1-x86_64-unknown-linux-gnu.zip'',
           browser_download_url = ''https://github.com/dl/v1.zip''\<rparr>"
proof -
  have m0: "asset_matches (assetName two_archives ''x86_64-unknown-linux-gnu'')
              (assets two_archives ! 0)"
    by (simp add: two_archives_def asset_matches_def assetName_def startsWith_def endsWith_def)
  have m1: "asset_matches (assetName two_archives ''x86_64-unknown-linux-gnu'')
              (assets two_archives ! 1)"
    by (simp add: two_archives_def asset_matches_def assetName_def startsWith_def endsWith_def)
  have len: "0 < length (assets two_archives)"
    by (simp add: two_archives_def)
  have "\<exists>i<length (assets two_archives).
          assets two_archives ! i = assets two_archives ! 0 \<and>
          asset_matches (assetName two_archives ''x86_64-unknown-linux-gnu'')
            (assets two_archives ! 0) \<and>
          (\<forall>j<i. \<not> asset_matches (assetName two_archives ''x86_64-unknown-linux-gnu'')
                      (assets two_archives ! j))"
    using m0 len by (intro exI [of _ 0]) simp
  then have "find_asset two_archives ''x86_64-unknown-linux-gnu'' = Some (assets two_archives ! 0)"
    using find_asset_first_in_listing_order
            [of two_archives "''x86_64-unknown-linux-gnu''" "assets two_archives ! 0"]
    by blast
  moreover have "assets two_archives ! 0 =
      \<lparr>name = ''luat-lsp-v1-x86_64-unknown-linux-gnu.zip'',
       browser_download_url = ''https://github.com/dl/v1.zip''\<rparr>"
    by (simp add: two_archives_def)
  ultimately show ?thesis
    using m0 m1 by simp
qed

section \<open>Properties of the Artifact Installer\<close>

text \<open>
  C9: whatever redirects lead to it, for every final response whose status code is
  neither 301 nor 302, error statuses such as 404 and 500 included, \<open>downloadFile\<close>
  writes the body of that response to the destination, where the destination can be
  opened, and resolves; and when \<open>downloadFile\<close> rejects, the error is that of a
  request that failed, never a status.
\<close>

theorem downloadFile_ignores_status:
  "(redirects_via h url visited final \<and> http_get h final = Response st loc b \<and>
    st \<noteq> 301 \<and> st \<noteq> 302 \<and> can_create h (files w) dest \<longrightarrow>
      downloadFile h url dest w =
        Some (Inr (),
              w\<lparr>files := (files w)
                    (dest \<mapsto> File b (case files w dest of
                                        Some (File c m0) \<Rightarrow> m0
                                      | _ \<Rightarrow> created_mode h)),
                requests := requests w @ visited @ [final]\<rparr>)) \<and>
   (downloadFile h url dest w0 = Some (Inl e, w1) \<longrightarrow>
      (\<exists>u. http_get h u = NetError e) \<or> get_undefined h = Some e)"
proof (intro conjI impI)
  assume a: "redirects_via h url visited final \<and> http_get h final = Response st loc b \<and>
    st \<noteq> 301 \<and> st \<noteq> 302 \<and> can_create h (files w) dest"
  then have "request h rs url = Some (Response st loc b, rs @ visited @ [final])" for rs
    using request_follows_redirects by blast
  with a show "downloadFile h url dest w =
        Some (Inr (),
              w\<lparr>files := (files w)
                    (dest \<mapsto> File b (case files w dest of
                                        Some (File c m0) \<Rightarrow> m0
                                      | _ \<Rightarrow> created_mode h)),
                requests := requests w @ visited @ [final]\<rparr>)"
    by (simp add: downloadFile_def Let_def)
next
  assume "downloadFile h url dest w0 = Some (Inl e, w1)"
  then obtain rs reqs where "request h rs url = Some (NetError e, reqs)"
    unfolding downloadFile_def Let_def
    by (auto split: if_splits option.splits prod.splits http_result.splits)
  then show "(\<exists>u. http_get h u = NetError e) \<or> get_undefined h = Some e"
    using request_error_origin by blast
qed

text \<open>
  An archive that was removed: its URL redirects and the redirect's target answers 404.
  The text of the error page is written to the destination and the download counts as
  done. A host that cannot be reached rejects with the error of the request.
\<close>

theorem downloadFile_ignores_status_witness:
  "redirects_via linux_host ''https://github.com/dl/gone.tar.gz''
     [''https://github.com/dl/gone.tar.gz''] ''https://cdn.example/gone.tar.gz'' \<and>
   http_get linux_host ''https://cdn.example/gone.tar.gz'' = Response 404 None ''Not Found'' \<and>
   can_create linux_host (files storage_world) ''/gs/server/gone.tar.gz'' \<and>
   downloadFile linux_host ''https://github.com/dl/gone.tar.gz'' ''/gs/server/gone.tar.gz''
       storage_world =
     Some (Inr (),
           storage_world
             \<lparr>files := (files storage_world)
                  (''/gs/server/gone.tar.gz'' \<mapsto> File ''Not Found'' 420),
              requests := [''https://github.com/dl/gone.tar.gz'',
                           ''https://cdn.example/gone.tar.gz'']\<rparr>) \<and>
   (\<exists>w1. downloadFile linux_host ''https://unreachable.example/x.tar.gz''
            ''/gs/server/x.tar.gz'' storage_world
          = Some (Inl (Thrown ''Error: getaddrinfo ENOTFOUND unreachable.example''), w1)) \<and>
   http_get linux_host ''https://unreachable.example/x.tar.gz''
     = NetError (Thrown ''Error: getaddrinfo ENOTFOUND unreachable.example'')"
proof -
  have r: "redirects_via linux_host ''https://github.com/dl/gone.tar.gz''
             [''https://github.com/dl/gone.tar.gz''] ''https://cdn.example/gone.tar.gz''"
    by (simp add: linux_host_def release_http_def)
  have g: "http_get linux_host ''https://cdn.example/gone.tar.gz''
             = Response 404 None ''Not Found''"
    by (simp add: linux_host_def release_http_def)
  have c: "can_create linux_host (files storage_world) ''/gs/server/gone.tar.gz''"
    by (simp add: can_create_def linux_host_def storage_world_def dirname_slash_def)
  have n: "files storage_world ''/gs/server/gone.tar.gz'' = None"
    "requests storage_world = []" "created_mode linux_host = 420"
    by (simp_all add: storage_world_def empty_world_def linux_host_def)
  have u: "http_get linux_host ''https://unreachable.example/x.tar.gz''
             = NetError (Thrown ''Error: getaddrinfo ENOTFOUND unreachable.example'')"
    by (simp add: linux_host_def release_http_def)
  have c2: "can_create linux_host (files storage_world) ''/gs/server/x.tar.gz''"
    by (simp add: can_create_def linux_host_def storage_world_def dirname_slash_def)
  have d: "\<exists>w1. downloadFile linux_host ''https://unreachable.example/x.tar.gz''
            ''/gs/server/x.tar.gz'' storage_world
          = Some (Inl (Thrown ''Error: getaddrinfo ENOTFOUND unreachable.example''), w1)"
    using u c2 by (simp add: downloadFile_def Let_def request.simps)
  have "downloadFile linux_host ''https://github.com/dl/gone.tar.gz''
          ''/gs/server/gone.tar.gz'' storage_world =
     Some (Inr (),
           storage_world
             \<lparr>files := (files storage_world)
                  (''/gs/server/gone.tar.gz'' \<mapsto> File ''Not Found'' 420),
              requests := [''https://github.com/dl/gone.tar.gz'',
                           ''https://cdn.example/gone.tar.gz'']\<rparr>)"
    using downloadFile_ignores_status
            [where h = linux_host and url = "''https://github.com/dl/gone.tar.gz''"
               and visited = "[''https://github.com/dl/gone.tar.gz'']"
               and final = "''https://cdn.example/gone.tar.gz''"
               and st = 404 and loc = None and b = "''Not Found''"
               and w = storage_world and dest = "''/gs/server/gone.tar.gz''"]
          r g c n
    by simp
  with r g c d u show ?thesis
    by simp
qed

text \<open>
  C10: \<open>extractArchive\<close> on a path that ends in neither \<open>.tar.gz\<close> nor \<open>.zip\<close>
  resolves without running any command, without touching anything and without an error.
\<close>

theorem extractArchive_other_suffix_noop:
  "\<not> endsWith archivePath ''.tar.gz'' \<Longrightarrow> \<not> endsWith archivePath ''.zip'' \<Longrightarrow>
   extractArchive h archivePath destDir w = (Inr (), w)"
  by (simp add: extractArchive_def)

theorem extractArchive_other_suffix_noop_witness:
  "\<not> endsWith ''/gs/server/luat-lsp.tar.bz2'' ''.tar.gz'' \<and>
   \<not> endsWith ''/gs/server/luat-lsp.tar.bz2'' ''.zip'' \<and>
   extractArchive linux_host ''/gs/server/luat-lsp.tar.bz2'' ''/gs/server'' empty_world
     = (Inr (), empty_world)"
proof -
  have a: "\<not> endsWith ''/gs/server/luat-lsp.tar.bz2'' ''.tar.gz''"
    by (simp add: endsWith_def)
  have b: "\<not> endsWith ''/gs/server/luat-lsp.tar.bz2'' ''.zip''"
    by (simp add: endsWith_def)
  show ?thesis
    using a b extractArchive_other_suffix_noop [OF a b, of linux_host "''/gs/server''" empty_world]
    by simp
qed

section \<open>Properties of the Client Supervisor\<close>

text \<open>
  C8: \<open>deactivate\<close> is idempotent. With no client it changes nothing; it never rejects,
  neither the first time nor the second, and the second call leaves the state the first
  one left.
\<close>

theorem deactivate_idempotent:
  "(client w = None \<longrightarrow> deactivate w = (Inr (), w)) \<and>
   fst (deactivate w) = Inr () \<and>
   fst (deactivate (snd (deactivate w))) = Inr () \<and>
   snd (deactivate (snd (deactivate w))) = snd (deactivate w)"
  by (auto simp: deactivate_def lc_stop_def split: option.splits)

theorem deactivate_idempotent_witness:
  "client empty_world = None \<and> deactivate empty_world = (Inr (), empty_world) \<and>
   deactivate (empty_world\<lparr>client := Some running_session\<rparr>)
     = (Inr (), empty_world\<lparr>client := Some (running_session\<lparr>state := Stopped\<rparr>)\<rparr>) \<and>
   deactivate (snd (deactivate (empty_world\<lparr>client := Some running_session\<rparr>)))
     = (Inr (), empty_world\<lparr>client := Some (running_session\<lparr>state := Stopped\<rparr>)\<rparr>)"
  using deactivate_idempotent [of empty_world]
        deactivate_idempotent [of "empty_world\<lparr>client := Some running_session\<rparr>"]
  by (simp add: empty_world_def running_session_def deactivate_def lc_stop_def)

section \<open>Properties of the Acquisition Orchestrator\<close>

text \<open>
  C6: when no server is found and the answer to the prompt is anything but
  \<open>Download\<close>, \<open>activate\<close> resolves, and apart from the prompt itself nothing has
  happened: the filesystem, the requests issued, the commands run, the client and the
  subscriptions are as before, and no error message was shown.
\<close>

theorem activate_declined_no_effect:
  "getServerPath h (files w) = None \<Longrightarrow> choice \<noteq> Some ''Download'' \<Longrightarrow>
   (\<exists>w'. activate h (choice # rest) w = Some (Inr (), w') \<and>
      files w' = files w \<and> requests w' = requests w \<and> executed w' = executed w \<and>
      client w' = client w \<and> subscriptions w' = subscriptions w \<and>
      notifications w' = notifications w @ [not_found_prompt])"
  by (simp add: activate.simps notify_def truthy_def)

theorem activate_declined_no_effect_witness:
  "getServerPath linux_host (files empty_world) = None \<and>
   Some ''Cancel'' \<noteq> Some ''Download'' \<and>
   (\<exists>w'. activate linux_host [Some ''Cancel''] empty_world = Some (Inr (), w') \<and>
      files w' = files empty_world \<and> requests w' = requests empty_world \<and>
      executed w' = executed empty_world \<and> client w' = client empty_world \<and>
      subscriptions w' = subscriptions empty_world \<and>
      notifications w' = notifications empty_world @ [not_found_prompt])"
proof -
  have a: "getServerPath linux_host (files empty_world) = None"
    by (rule linux_not_found)
  have b: "Some ''Cancel'' \<noteq> Some ''Download''"
    by simp
  show ?thesis
    using a b activate_declined_no_effect [OF a b, of "[]"] by simp
qed

text \<open>
  C7: after a download that succeeded, \<open>activate\<close> runs again from its first step on
  the state the download left; and whenever \<open>activate\<close> settles, the client is either
  the one there was before or one whose command, in both launch profiles, is the path
  that \<open>getServerPath\<close> returns on the filesystem as it is then; it is in state
  \<open>Running\<close> when \<open>activate\<close> resolved.
\<close>

theorem activate_reenters_after_install:
  "(getServerPath h (files w) = None \<and>
    downloadServer h (notify not_found_prompt w) = Some (True, w2) \<longrightarrow>
      activate h (Some ''Download'' # rest) w = activate h rest w2) \<and>
   (activate h choices w0 = Some (r, w') \<longrightarrow>
      client w' = client w0 \<or>
      (\<exists>p. p \<noteq> [] \<and> getServerPath h (files w') = Some p \<and>
         client w' = Some \<lparr>run_command = p, debug_command = p,
                            debug_RUST_LOG = ''luat_lsp=debug'',
                            state = (if r = Inr () then Running else Starting)\<rparr>))"
proof (intro conjI impI)
  assume "getServerPath h (files w) = None \<and>
          downloadServer h (notify not_found_prompt w) = Some (True, w2)"
  then show "activate h (Some ''Download'' # rest) w = activate h rest w2"
    by (subst activate.simps) (simp add: truthy_def)
next
  assume "activate h choices w0 = Some (r, w')"
  then show "client w' = client w0 \<or>
      (\<exists>p. p \<noteq> [] \<and> getServerPath h (files w') = Some p \<and>
         client w' = Some \<lparr>run_command = p, debug_command = p,
                            debug_RUST_LOG = ''luat_lsp=debug'',
                            state = (if r = Inr () then Running else Starting)\<rparr>)"
    by (rule activate_session)
qed

text \<open>
  Nothing installed, the user accepts, the archive holds the binary at its top level:
  the download succeeds, \<open>activate\<close> runs again and starts the binary that
  \<open>getServerPath\<close> finds in the storage directory.
\<close>

theorem activate_reenters_after_install_witness:
  "getServerPath linux_host (files empty_world) = None \<and>
   (\<exists>w2. downloadServer linux_host (notify not_found_prompt empty_world) = Some (True, w2) \<and>
      activate linux_host [Some ''Download''] empty_world = activate linux_host [] w2 \<and>
      (\<exists>w3. activate linux_host [] w2 = Some (Inr (), w3) \<and>
         client w3 = Some running_session \<and>
         getServerPath linux_host (files w3) = Some ''/gs/server/luat-lsp''))"
proof -
  have "case downloadServer linux_host (notify not_found_prompt empty_world) of
          None \<Rightarrow> False
        | Some (downloaded, w2) \<Rightarrow>
            downloaded \<and> files w2 ''/gs/server/luat-lsp'' = Some (File ''binary'' 493)"
    by code_simp
  then obtain w2 where
    d: "downloadServer linux_host (notify not_found_prompt empty_world) = Some (True, w2)" and
    f: "files w2 ''/gs/server/luat-lsp'' = Some (File ''binary'' 493)"
    by (auto split: option.splits)
  have re: "activate linux_host [Some ''Download''] empty_world = activate linux_host [] w2"
    using activate_reenters_after_install [of linux_host empty_world w2 "[]"] linux_not_found d
    by simp
  have g: "getServerPath linux_host (files w2) = Some ''/gs/server/luat-lsp''"
    using f
    by (simp add: getServerPath_def linux_host_def existsSync_def BINARY_NAME_def truthy_def)
  obtain r w3 where l: "launch linux_host ''/gs/server/luat-lsp'' w2 = (r, w3)"
    by (cases "launch linux_host ''/gs/server/luat-lsp'' w2")
  have r: "r = Inr ()"
    using l by (auto simp: launch_def lc_start_def linux_host_def)
  have a3: "activate linux_host [] w2 = Some (Inr (), w3)"
    using g l r by (subst activate.simps) (simp add: truthy_def)
  have "files w3 = files w2" and "client w3 = Some running_session"
    using launch_session [OF l] r by (simp_all add: running_session_def)
  with linux_not_found d re a3 g show ?thesis
    by simp
qed




text \<open>
  C4 on an archive that holds the binary inside a directory: extraction completes,
  \<open>chmodSync\<close> on the expected path throws, the \<open>catch\<close> reports the failure, and the
  downloaded archive is still in the install directory.
\<close>

theorem downloadServer_archive_left_behind:
  "(case downloadServer nested_host empty_world of
      None \<Rightarrow> False
    | Some (downloaded, w) \<Rightarrow>
        \<not> downloaded \<and>
        executed w =
          [''tar -xzf \"/gs/server/luat-lsp-v0.2.0-x86_64-unknown-linux-gnu.tar.gz\" -C \"/gs/server\"''] \<and>
        files w ''/gs/server/luat-lsp-v0.2.0/luat-lsp'' = Some (File ''binary'' 420) \<and>
        files w ''/gs/server/luat-lsp-v0.2.0-x86_64-unknown-linux-gnu.tar.gz''
          = Some (File ''archive'' 420) \<and>
        last (notifications w) =
          ShowError (''Download failed: Error: ENOENT: no such file or directory, chmod ''
                     @ quoted ''/gs/server/luat-lsp''))"
  by code_simp

end
